theory Spec2Isabelle
  imports Main
begin

section \<open>The translation unit \<open>nosync.c\<close>\<close>

text \<open>
  The file under verification is a preload library of a single function:
  \<^verbatim>\<open>
  #define _GNU_SOURCE
  #include <unistd.h>

  /* Override sync() to be a no-op */
  void sync(void) {
      /* Do nothing - sgdisk follows with fsync(fd) anyway */
      return;
  }
  \<close>
  Several properties of it are about what the file contains (which symbols it defines, with
  which signature, which variables it declares) and the others about what a call of its
  function does. Both are read off one value, \<open>nosync_c\<close>: the file as a list of its
  file-scope items, the function with its body as a list of statements. What a call does is
  what the executor \<open>exec\<close> computes for that body.
\<close>

type_synonym ident = string

datatype ctype = CVoid | CInt

text \<open>\<open>Internal\<close> is the linkage of an item declared \<open>static\<close>; every other one is \<open>External\<close>.\<close>

datatype linkage = External | Internal

text \<open>
  Statements of a function body. The file uses \<open>return;\<close> only. The other two are the ways in
  which a body of this shape acts on the process: a call of a function the unit does not
  define itself (a system call wrapper, an allocator, a lock), and a store to a file-scope
  variable.
\<close>

datatype stmt = Return | Call ident | Store ident int

record fundef =
  fname :: ident
  ret :: ctype
  params :: "(ctype \<times> ident) list"
  flinkage :: linkage
  attributes :: "string list"
  body :: "stmt list"

datatype item =
    Define ident
  | Include string
  | Variable linkage ctype ident
  | Function fundef

text \<open>
  The file, item by item. The parameter list \<open>(void)\<close> is the empty list, the definition has
  no \<open>static\<close> and no \<open>__attribute__\<close>, and the comment inside the body is no statement.
\<close>

definition nosync_c :: "item list" where
  "nosync_c =
     [Define ''_GNU_SOURCE'',
      Include ''unistd.h'',
      Function \<lparr>fname = ''sync'', ret = CVoid, params = [], flinkage = External,
                attributes = [], body = [Return]\<rparr>]"

fun functions_of :: "item list \<Rightarrow> fundef list" where
  "functions_of [] = []"
| "functions_of (Function d # rest) = d # functions_of rest"
| "functions_of (Define m # rest) = functions_of rest"
| "functions_of (Include h # rest) = functions_of rest"
| "functions_of (Variable l t x # rest) = functions_of rest"

fun variables_of :: "item list \<Rightarrow> (linkage \<times> ctype \<times> ident) list" where
  "variables_of [] = []"
| "variables_of (Variable l t x # rest) = (l, t, x) # variables_of rest"
| "variables_of (Define m # rest) = variables_of rest"
| "variables_of (Include h # rest) = variables_of rest"
| "variables_of (Function d # rest) = variables_of rest"

text \<open>
  What the shared object built from a unit exports: its functions and variables of external
  linkage. A header only declares, so an \<open>Include\<close> contributes no symbol.
\<close>

definition exported :: "item list \<Rightarrow> fundef list" where
  "exported tu = filter (\<lambda>d. flinkage d = External) (functions_of tu)"

definition symbols :: "item list \<Rightarrow> ident list" where
  "symbols tu =
     map fname (exported tu) @
     map (\<lambda>(l, t, x). x) (filter (\<lambda>(l, t, x). l = External) (variables_of tu))"

section \<open>Symbol resolution under preloading\<close>

text \<open>
  The usage line of the file is \<^verbatim>\<open>LD_PRELOAD=/usr/lib/nosync.so sgdisk ...\<close>: the object is
  searched before the standard library, so a name it exports binds to its definition and
  every other name to the standard library's. The standard library is a parameter, a table
  \<open>libc\<close> from names to implementations of any type \<open>'i\<close>.
\<close>

datatype 'i binding = Override fundef | Standard 'i

definition resolve :: "item list \<Rightarrow> (ident \<Rightarrow> 'i) \<Rightarrow> ident \<Rightarrow> 'i binding" where
  "resolve tu libc f =
     (case find (\<lambda>d. fname d = f) (exported tu) of
        Some d \<Rightarrow> Override d
      | None \<Rightarrow> Standard (libc f))"

section \<open>Process state and execution\<close>

text \<open>
  A mounted filesystem holds the blocks modified in memory and not yet written back
  (\<open>dirty\<close>) and the blocks on its backing store (\<open>stable\<close>); a flush moves the former to the
  latter. The process state has \<open>errno\<close>, the file-scope variables of the loaded objects and
  the mounted filesystems. It is an extensible record: every statement below holds for a
  state with any further components (descriptors, environment, heap, threads).
\<close>

record mount =
  dirty :: "nat list"
  stable :: "nat list"

record proc =
  errno :: int
  vars :: "ident \<Rightarrow> int"
  mounts :: "mount list"

text \<open>
  An implementation maps the state before a call to the state after it and the number of
  steps the call took; \<open>None\<close> is a call that does not return (the global sync of the
  standard library hanging on a 9p mount is one).
\<close>

type_synonym 'a impl = "'a proc_scheme \<Rightarrow> ('a proc_scheme \<times> nat) option"

text \<open>
  Executing a body: \<open>return;\<close> leaves the function at once, whatever follows it; running off
  the end of the body of a void function returns as well. The second component counts the
  statements executed, a call counting for itself and for what the callee took.
\<close>

fun exec :: "(ident \<Rightarrow> 'a impl) \<Rightarrow> stmt list \<Rightarrow> 'a impl" where
  "exec ext [] s = Some (s, 0)"
| "exec ext (Return # rest) s = Some (s, 1)"
| "exec ext (Call f # rest) s =
     (case ext f s of
        None \<Rightarrow> None
      | Some (s', m) \<Rightarrow>
          (case exec ext rest s' of
             None \<Rightarrow> None
           | Some (t, n) \<Rightarrow> Some (t, Suc (m + n))))"
| "exec ext (Store g k # rest) s =
     (case exec ext rest (s\<lparr>vars := (vars s)(g := k)\<rparr>) of
        None \<Rightarrow> None
      | Some (t, n) \<Rightarrow> Some (t, Suc n))"

text \<open>A call of the name \<open>f\<close> in a process that has preloaded the unit \<open>tu\<close>.\<close>

definition invoke :: "item list \<Rightarrow> (ident \<Rightarrow> 'a impl) \<Rightarrow> ident \<Rightarrow> 'a impl" where
  "invoke tu libc f s =
     (case resolve tu libc f of
        Override d \<Rightarrow> exec libc (body d) s
      | Standard g \<Rightarrow> g s)"

text \<open>The operation of the file: what a call of \<open>sync\<close> does once the library is preloaded.\<close>

definition sync :: "(ident \<Rightarrow> 'a impl) \<Rightarrow> 'a impl" where
  "sync libc = invoke nosync_c libc ''sync''"

section \<open>Footprint of a body\<close>

text \<open>
  What a body touches when it runs, in order: the file-scope variables it stores to and the
  functions it calls. As in \<open>exec\<close>, nothing after a \<open>return;\<close> is reached.
\<close>

datatype access = Writes ident | Calls ident

fun footprint :: "stmt list \<Rightarrow> access list" where
  "footprint [] = []"
| "footprint (Return # rest) = []"
| "footprint (Call f # rest) = Calls f # footprint rest"
| "footprint (Store g k # rest) = Writes g # footprint rest"

text \<open>
  Two accesses conflict when they store to the same variable; a call conflicts with every
  access, since the callee may touch anything. Two bodies run by two threads may race when
  an access of one conflicts with an access of the other.
\<close>

fun conflict :: "access \<Rightarrow> access \<Rightarrow> bool" where
  "conflict (Writes x) (Writes y) = (x = y)"
| "conflict (Calls f) b = True"
| "conflict (Writes x) (Calls f) = True"

definition may_race :: "stmt list \<Rightarrow> stmt list \<Rightarrow> bool" where
  "may_race a b = list_ex (\<lambda>x. list_ex (conflict x) (footprint b)) (footprint a)"

section \<open>Threads\<close>

text \<open>
  The statements a thread has before it when it calls the name \<open>f\<close> in a process that has
  preloaded \<open>tu\<close>: the body of the unit's function, or the call into the standard library.
\<close>

definition activation :: "item list \<Rightarrow> ident \<Rightarrow> stmt list" where
  "activation tu f =
     (case resolve tu (\<lambda>g. [Call g]) f of
        Override d \<Rightarrow> body d
      | Standard c \<Rightarrow> c)"

text \<open>
  One statement of one thread: the statements it has left and the shared state afterwards.
  A thread that has returned has nothing left and stays so. \<open>None\<close> is a thread stuck in a
  callee (a lock held by another thread, a blocking system call).
\<close>

fun step :: "(ident \<Rightarrow> 'a impl) \<Rightarrow> stmt list \<Rightarrow> 'a proc_scheme \<Rightarrow> (stmt list \<times> 'a proc_scheme) option" where
  "step ext [] s = Some ([], s)"
| "step ext (Return # rest) s = Some ([], s)"
| "step ext (Call f # rest) s =
     (case ext f s of
        None \<Rightarrow> None
      | Some (t, m) \<Rightarrow> Some (rest, t))"
| "step ext (Store g k # rest) s = Some (rest, s\<lparr>vars := (vars s)(g := k)\<rparr>)"

text \<open>
  Threads sharing one state, run under a schedule: the list of the indices of the threads
  that take the next step, in order. An index that names no thread is skipped.
\<close>

fun interleave ::
  "(ident \<Rightarrow> 'a impl) \<Rightarrow> nat list \<Rightarrow> stmt list list \<Rightarrow> 'a proc_scheme
     \<Rightarrow> (stmt list list \<times> 'a proc_scheme) option" where
  "interleave ext [] ts s = Some (ts, s)"
| "interleave ext (i # sched) ts s =
     (if i < length ts then
        (case step ext (ts ! i) s of
           None \<Rightarrow> None
         | Some (t, s') \<Rightarrow> interleave ext sched (ts[i := t]) s')
      else interleave ext sched ts s)"

section \<open>Sequences of invocations\<close>

text \<open>\<open>n\<close> calls of one implementation, one after the other.\<close>

fun invoke_n :: "nat \<Rightarrow> 'a impl \<Rightarrow> 'a proc_scheme \<Rightarrow> 'a proc_scheme option" where
  "invoke_n 0 f s = Some s"
| "invoke_n (Suc n) f s =
     (case f s of
        None \<Rightarrow> None
      | Some (t, k) \<Rightarrow> invoke_n n f t)"

text \<open>
  What the threads of a host process do, as one interleaved sequence of events: thread \<open>t\<close>
  calls \<open>sync\<close>, or thread \<open>t\<close> does something else, given by its effect.
\<close>

datatype 'a event = Sync_by nat | Other_by nat "'a impl"

fun is_sync :: "'a event \<Rightarrow> bool" where
  "is_sync (Sync_by t) = True"
| "is_sync (Other_by t g) = False"

fun run :: "(ident \<Rightarrow> 'a impl) \<Rightarrow> 'a event list \<Rightarrow> 'a proc_scheme \<Rightarrow> 'a proc_scheme option" where
  "run libc [] s = Some s"
| "run libc (Sync_by t # evs) s =
     (case sync libc s of
        None \<Rightarrow> None
      | Some (s', k) \<Rightarrow> run libc evs s')"
| "run libc (Other_by t g # evs) s =
     (case g s of
        None \<Rightarrow> None
      | Some (s', k) \<Rightarrow> run libc evs s')"

section \<open>Lifecycle of the loaded object\<close>

text \<open>
  The build line of the file is \<^verbatim>\<open>gcc -shared -fPIC -o nosync.so nosync.c\<close>. The object it
  produces holds, besides the code of the unit, the start-up and termination code the
  toolchain links into every shared object. That code is not in the file; it is a parameter
  here, \<open>ini\<close> for what it does when the object is loaded and \<open>fin\<close> for what it does when the
  object is unloaded, each any implementation at all (it may call into the standard library,
  keep a variable of its own, or not return).

  Loading gives each file-scope variable of the unit its storage, zeroed, runs \<open>ini\<close> and then
  the functions the unit marks \<open>constructor\<close>; unloading runs the functions the unit marks
  \<open>destructor\<close> and then \<open>fin\<close>. Between the two the process calls a name \<open>n\<close> times.
\<close>

definition constructors :: "item list \<Rightarrow> fundef list" where
  "constructors tu = filter (\<lambda>d. ''constructor'' \<in> set (attributes d)) (functions_of tu)"

definition destructors :: "item list \<Rightarrow> fundef list" where
  "destructors tu = filter (\<lambda>d. ''destructor'' \<in> set (attributes d)) (functions_of tu)"

fun allocate :: "(linkage \<times> ctype \<times> ident) list \<Rightarrow> 'a proc_scheme \<Rightarrow> 'a proc_scheme" where
  "allocate [] s = s"
| "allocate ((l, t, x) # rest) s = allocate rest (s\<lparr>vars := (vars s)(x := 0)\<rparr>)"

fun run_each :: "(ident \<Rightarrow> 'a impl) \<Rightarrow> fundef list \<Rightarrow> 'a proc_scheme \<Rightarrow> 'a proc_scheme option" where
  "run_each ext [] s = Some s"
| "run_each ext (d # ds) s =
     (case exec ext (body d) s of
        None \<Rightarrow> None
      | Some (t, k) \<Rightarrow> run_each ext ds t)"

definition load ::
  "item list \<Rightarrow> 'a impl \<Rightarrow> (ident \<Rightarrow> 'a impl) \<Rightarrow> 'a proc_scheme \<Rightarrow> 'a proc_scheme option" where
  "load tu ini libc s =
     (case ini (allocate (variables_of tu) s) of
        None \<Rightarrow> None
      | Some (s1, k) \<Rightarrow> run_each libc (constructors tu) s1)"

definition unload ::
  "item list \<Rightarrow> 'a impl \<Rightarrow> (ident \<Rightarrow> 'a impl) \<Rightarrow> 'a proc_scheme \<Rightarrow> 'a proc_scheme option" where
  "unload tu fin libc s =
     (case run_each libc (destructors tu) s of
        None \<Rightarrow> None
      | Some s1 \<Rightarrow> map_option fst (fin s1))"

definition lifecycle ::
  "item list \<Rightarrow> 'a impl \<Rightarrow> 'a impl \<Rightarrow> (ident \<Rightarrow> 'a impl) \<Rightarrow> ident \<Rightarrow> nat
     \<Rightarrow> 'a proc_scheme \<Rightarrow> 'a proc_scheme option" where
  "lifecycle tu ini fin libc f n s =
     (case load tu ini libc s of
        None \<Rightarrow> None
      | Some s1 \<Rightarrow>
          (case invoke_n n (invoke tu libc f) s1 of
             None \<Rightarrow> None
           | Some s2 \<Rightarrow> unload tu fin libc s2))"

section \<open>Declarations in scope and the prototype of a compiled function\<close>

text \<open>
  A prototype is what a declaration says of a function: name, return type, parameter types
  and attributes. \<open>declared\<close> is the prototype a definition of the unit writes itself.
\<close>

record prototype =
  pname :: ident
  pret :: ctype
  pparams :: "ctype list"
  pattributes :: "string list"

definition declared :: "fundef \<Rightarrow> prototype" where
  "declared d =
     \<lparr>pname = fname d, pret = ret d, pparams = map fst (params d), pattributes = attributes d\<rparr>"

text \<open>
  Modelled from the spec: the declaration of the platform's global filesystem-sync primitive.
  It stands in the system header \<open>unistd.h\<close>, which the file includes and which is not part
  of the repository. The spec gives the primitive no parameters and no return value; the
  file names it \<open>sync()\<close>. The attributes the platform's header puts on the declaration are
  the parameter \<open>as\<close>.
\<close>

definition platform_sync :: "string list \<Rightarrow> prototype" where
  "platform_sync as = \<lparr>pname = ''sync'', pret = CVoid, pparams = [], pattributes = as\<rparr>"

text \<open>
  A function is called with the platform's standard C calling convention unless one of its
  attributes names another one; these are the attributes of the compiler that do. Any other
  attribute (\<open>nothrow\<close>, \<open>leaf\<close>, \<open>constructor\<close>) leaves the convention alone.
\<close>

datatype callconv = Default_C | Named string

definition convention_attributes :: "string list" where
  "convention_attributes =
     [''cdecl'', ''stdcall'', ''fastcall'', ''thiscall'', ''vectorcall'', ''regparm'',
      ''sseregparm'', ''ms_abi'', ''sysv_abi'', ''pcs'']"

definition convention :: "string list \<Rightarrow> callconv" where
  "convention as =
     (case find (\<lambda>a. a \<in> set convention_attributes) as of
        None \<Rightarrow> Default_C
      | Some a \<Rightarrow> Named a)"

text \<open>
  Compiling a unit, as far as prototypes go. The items are read in order. A \<open>#define\<close> adds
  a macro, an \<open>#include\<close> brings the declarations of the header into scope (which ones may
  depend on the macros defined so far; the headers are the parameter \<open>hdrs\<close>). A function
  definition must agree in return type and parameter types with every declaration of its
  name in scope, or the unit is refused; the function then has the attributes of those
  declarations and its own.
\<close>

datatype diagnostic = Conflicting_types ident

definition compatible :: "prototype \<Rightarrow> prototype \<Rightarrow> bool" where
  "compatible p q = (pret p = pret q \<and> pparams p = pparams q)"

definition composite :: "prototype list \<Rightarrow> fundef \<Rightarrow> prototype" where
  "composite earlier d =
     (declared d)\<lparr>pattributes := concat (map pattributes earlier) @ attributes d\<rparr>"

fun compile ::
  "(ident list \<Rightarrow> string \<Rightarrow> prototype list) \<Rightarrow> ident list \<Rightarrow> prototype list \<Rightarrow> item list
     \<Rightarrow> diagnostic + (linkage \<times> prototype) list" where
  "compile hdrs macros scope [] = Inr []"
| "compile hdrs macros scope (Define m # rest) = compile hdrs (macros @ [m]) scope rest"
| "compile hdrs macros scope (Include h # rest) =
     compile hdrs macros (scope @ hdrs macros h) rest"
| "compile hdrs macros scope (Variable l t x # rest) = compile hdrs macros scope rest"
| "compile hdrs macros scope (Function d # rest) =
     (if list_all (compatible (declared d)) (filter (\<lambda>q. pname q = fname d) scope)
      then
        (case compile hdrs macros
                (scope @ [composite (filter (\<lambda>q. pname q = fname d) scope) d]) rest of
           Inl e \<Rightarrow> Inl e
         | Inr ps \<Rightarrow>
             Inr ((flinkage d, composite (filter (\<lambda>q. pname q = fname d) scope) d) # ps))
      else Inl (Conflicting_types (fname d)))"

text \<open>The prototypes of the functions of external linkage in the object built from a unit.\<close>

definition exported_prototypes ::
  "(ident list \<Rightarrow> string \<Rightarrow> prototype list) \<Rightarrow> item list \<Rightarrow> diagnostic + prototype list" where
  "exported_prototypes hdrs tu =
     (case compile hdrs [] [] tu of
        Inl e \<Rightarrow> Inl e
      | Inr ps \<Rightarrow> Inr (map snd (filter (\<lambda>(l, p). l = External) ps)))"

section \<open>Evaluation of the unit\<close>

lemma functions_nosync_c:
  "functions_of nosync_c =
     [\<lparr>fname = ''sync'', ret = CVoid, params = [], flinkage = External,
       attributes = [], body = [Return]\<rparr>]"
  by (simp add: nosync_c_def)

lemma variables_nosync_c: "variables_of nosync_c = []"
  by (simp add: nosync_c_def)

lemma exported_nosync_c:
  "exported nosync_c =
     [\<lparr>fname = ''sync'', ret = CVoid, params = [], flinkage = External,
       attributes = [], body = [Return]\<rparr>]"
  by (simp add: exported_def functions_nosync_c)

lemma resolve_sync:
  "resolve nosync_c libc ''sync'' =
     Override \<lparr>fname = ''sync'', ret = CVoid, params = [], flinkage = External,
               attributes = [], body = [Return]\<rparr>"
  by (simp add: resolve_def exported_nosync_c)

lemma sync_returns: "sync libc s = Some (s, 1)"
  by (simp add: sync_def invoke_def resolve_sync)

section \<open>The call is a no-op\<close>

text \<open>
  C1. Every invocation of the overriding \<open>sync\<close>, in every process state \<open>s\<close> and over every
  standard library \<open>libc\<close>, returns and returns the state it was called in: no component of
  the process or filesystem state changes. In particular it flushes nothing (the dirty
  blocks of every mounted filesystem and the blocks on every backing store are the ones from
  before the call), and it returns at once, after the one \<open>return;\<close> statement. The statement
  has no condition on \<open>s\<close> or \<open>libc\<close>, so it holds for each call of the process's lifetime.
\<close>

theorem sync_no_op:
  "map_option fst (sync libc s) = Some s
   \<and> map_option (map dirty \<circ> mounts \<circ> fst) (sync libc s) = Some (map dirty (mounts s))
   \<and> map_option (map stable \<circ> mounts \<circ> fst) (sync libc s) = Some (map stable (mounts s))
   \<and> map_option snd (sync libc s) = Some 1"
  by (simp add: sync_returns)

section \<open>Which symbols the object overrides\<close>

text \<open>
  C2. The object exports the one symbol \<open>sync\<close>. In a process that has preloaded it, \<open>sync\<close>
  binds to the unit's function and every other name to the standard library's
  implementation, whatever the standard library is and whatever type its implementations
  have (\<open>fsync\<close> and \<open>syncfs\<close> take a descriptor and return a status). In particular
  \<open>fsync\<close> and \<open>syncfs\<close> are not among the exported symbols, they resolve to the standard
  library's \<open>fsync\<close> and \<open>syncfs\<close>, and calling them does what the standard library does.
\<close>

theorem only_sync_overridden:
  "symbols nosync_c = [''sync'']
   \<and> resolve nosync_c libc f =
       (if f = ''sync''
        then Override \<lparr>fname = ''sync'', ret = CVoid, params = [], flinkage = External,
                       attributes = [], body = [Return]\<rparr>
        else Standard (libc f))
   \<and> resolve nosync_c libc ''fsync'' = Standard (libc ''fsync'')
   \<and> resolve nosync_c libc ''syncfs'' = Standard (libc ''syncfs'')
   \<and> invoke nosync_c impls ''fsync'' = impls ''fsync''
   \<and> invoke nosync_c impls ''syncfs'' = impls ''syncfs''"
proof -
  have r: "resolve nosync_c l g =
       (if g = ''sync''
        then Override \<lparr>fname = ''sync'', ret = CVoid, params = [], flinkage = External,
                       attributes = [], body = [Return]\<rparr>
        else Standard (l g))" for l :: "ident \<Rightarrow> 'x" and g
    by (simp add: resolve_def exported_nosync_c)
  have s: "symbols nosync_c = [''sync'']"
    by (simp add: symbols_def exported_nosync_c variables_nosync_c)
  have "invoke nosync_c impls ''fsync'' = impls ''fsync''"
    by (rule ext) (simp add: invoke_def r)
  moreover have "invoke nosync_c impls ''syncfs'' = impls ''syncfs''"
    by (rule ext) (simp add: invoke_def r)
  ultimately show ?thesis
    using s by (simp add: r)
qed

section \<open>Name and signature of the exported function\<close>

text \<open>
  C3. The unit defines one function and exports it, and that function has exactly the name
  and signature of the platform's global sync primitive. As the unit writes it, its
  prototype is the platform's declaration with no attribute added: the name \<open>sync\<close>, the
  return type \<open>void\<close>, the empty parameter list. It has external linkage, and what it writes
  names no calling convention, so it is called with the standard C one. Compiled under a
  \<open>unistd.h\<close> that declares the platform's \<open>sync\<close> (once, with whatever attributes \<open>as\<close> the
  platform gives it), the unit is accepted and the one prototype it exports is the
  platform's declaration itself, attributes and hence calling convention included.
\<close>

theorem sync_signature:
  assumes "filter (\<lambda>q. pname q = ''sync'') (hdrs [''_GNU_SOURCE''] ''unistd.h'')
             = [platform_sync as]"
  shows "exported_prototypes hdrs nosync_c = Inr [platform_sync as]
   \<and> map declared (exported nosync_c) = [platform_sync []]
   \<and> map flinkage (functions_of nosync_c) = [External]
   \<and> length (exported nosync_c) = 1
   \<and> map (convention \<circ> attributes) (exported nosync_c) = [Default_C]"
proof -
  have c: "compile hdrs [] [] nosync_c = Inr [(External, platform_sync as)]"
    using assms
    by (simp add: nosync_c_def declared_def compatible_def composite_def platform_sync_def)
  have e: "exported_prototypes hdrs nosync_c = Inr [platform_sync as]"
    by (simp add: exported_prototypes_def c)
  have d: "map declared (exported nosync_c) = [platform_sync []]"
    by (simp add: exported_nosync_c declared_def platform_sync_def)
  have v: "map (convention \<circ> attributes) (exported nosync_c) = [Default_C]"
    by (simp add: exported_nosync_c convention_def)
  from e d v show ?thesis
    by (simp add: functions_nosync_c exported_nosync_c)
qed

text \<open>
  The theorem at a header that declares \<open>sync\<close> with the attributes \<open>nothrow\<close> and \<open>leaf\<close>,
  \<open>fsync\<close>, and \<open>syncfs\<close> when \<open>_GNU_SOURCE\<close> is defined.
\<close>

theorem sync_signature_witness:
  "filter (\<lambda>q. pname q = ''sync'')
     ((\<lambda>macros h.
         if h = ''unistd.h''
         then [platform_sync [''nothrow'', ''leaf''],
               \<lparr>pname = ''fsync'', pret = CInt, pparams = [CInt], pattributes = []\<rparr>] @
              (if ''_GNU_SOURCE'' \<in> set macros
               then [\<lparr>pname = ''syncfs'', pret = CInt, pparams = [CInt],
                      pattributes = [''nothrow'', ''leaf'']\<rparr>]
               else [])
         else []) [''_GNU_SOURCE''] ''unistd.h'')
     = [platform_sync [''nothrow'', ''leaf'']]
   \<and> exported_prototypes
       (\<lambda>macros h.
         if h = ''unistd.h''
         then [platform_sync [''nothrow'', ''leaf''],
               \<lparr>pname = ''fsync'', pret = CInt, pparams = [CInt], pattributes = []\<rparr>] @
              (if ''_GNU_SOURCE'' \<in> set macros
               then [\<lparr>pname = ''syncfs'', pret = CInt, pparams = [CInt],
                      pattributes = [''nothrow'', ''leaf'']\<rparr>]
               else [])
         else []) nosync_c
     = Inr [platform_sync [''nothrow'', ''leaf'']]
   \<and> convention (pattributes (platform_sync [''nothrow'', ''leaf''])) = Default_C"
proof -
  let ?hdrs = "\<lambda>macros h.
         if h = ''unistd.h''
         then [platform_sync [''nothrow'', ''leaf''],
               \<lparr>pname = ''fsync'', pret = CInt, pparams = [CInt], pattributes = []\<rparr>] @
              (if ''_GNU_SOURCE'' \<in> set macros
               then [\<lparr>pname = ''syncfs'', pret = CInt, pparams = [CInt],
                      pattributes = [''nothrow'', ''leaf'']\<rparr>]
               else [])
         else []"
  have h: "filter (\<lambda>q. pname q = ''sync'') (?hdrs [''_GNU_SOURCE''] ''unistd.h'')
             = [platform_sync [''nothrow'', ''leaf'']]"
    by (simp add: platform_sync_def)
  have "exported_prototypes ?hdrs nosync_c = Inr [platform_sync [''nothrow'', ''leaf'']]"
    using sync_signature [of ?hdrs "[''nothrow'', ''leaf'']"] h by blast
  moreover have "convention (pattributes (platform_sync [''nothrow'', ''leaf''])) = Default_C"
    by (simp add: platform_sync_def convention_def convention_attributes_def)
  ultimately show ?thesis
    using h by blast
qed

text \<open>
  The comparison can fail: under a header that declares \<open>sync\<close> with a return value, the
  unit is refused.
\<close>

lemma other_signature_refused:
  "exported_prototypes
     (\<lambda>macros h. [\<lparr>pname = ''sync'', pret = CInt, pparams = [], pattributes = []\<rparr>])
     nosync_c = Inl (Conflicting_types ''sync'')"
  by (simp add: exported_prototypes_def nosync_c_def declared_def compatible_def)

section \<open>Repeated and interleaved invocations\<close>

lemma invoke_n_sync: "invoke_n n (sync libc) s = Some s"
  by (induction n) (simp_all add: sync_returns)

lemma run_drops_sync: "run libc evs s = run libc (filter (\<lambda>e. \<not> is_sync e) evs) s"
proof (induction evs arbitrary: s)
  case Nil
  show ?case by simp
next
  case (Cons e evs)
  show ?case
  proof (cases e)
    case (Sync_by t)
    then show ?thesis using Cons.IH [of s] by (simp add: sync_returns)
  next
    case (Other_by t g)
    then show ?thesis using Cons.IH by (simp split: option.splits)
  qed
qed

lemma run_only_sync: "run libc (map Sync_by tids) s = Some s"
  by (induction tids) (simp_all add: sync_returns)

text \<open>
  C4. For every count \<open>n\<close>, \<open>n\<close> invocations of the override one after the other end in the
  state they started in, which is what zero invocations do. For every interleaving of the
  callers with one another (any list \<open>tids\<close> of calling threads) the same holds, and for
  every interleaving with whatever else the threads of the process do (any list \<open>evs\<close> of
  events), the outcome is the one of the same sequence with every invocation of the override
  taken out.
\<close>

theorem sync_n_times_is_identity:
  "invoke_n n (sync libc) s = Some s
   \<and> invoke_n n (sync libc) s = invoke_n 0 (sync libc) s
   \<and> run libc (map Sync_by tids) s = Some s
   \<and> run libc evs s = run libc (filter (\<lambda>e. \<not> is_sync e) evs) s"
  using run_drops_sync [of libc evs s]
  by (simp add: invoke_n_sync run_only_sync)

section \<open>Errors, termination, owned state\<close>

lemma activation_sync: "activation nosync_c ''sync'' = [Return]"
  by (simp add: activation_def resolve_def exported_nosync_c)

lemma footprint_sync: "footprint (activation nosync_c ''sync'') = []"
  by (simp add: activation_sync)

text \<open>
  C5. The override cannot fail. In every state and over every standard library the call
  returns (it has no precondition that could be violated), and the state it returns is the
  one it was given, so no error state is entered. Its return type is \<open>void\<close>: it hands no
  error value to its caller. Its body calls nothing, so it performs no input or output and no
  allocation, both of which are calls in C.
\<close>

theorem sync_cannot_fail:
  "sync libc s \<noteq> None
   \<and> map_option fst (sync libc s) = Some s
   \<and> map ret (exported nosync_c) = [CVoid]
   \<and> footprint (activation nosync_c ''sync'') = []"
  by (simp add: sync_returns exported_nosync_c footprint_sync)

text \<open>
  C6. Every invocation terminates: it returns a result in every state, also over a standard
  library every function of which blocks forever. It takes one step, the \<open>return;\<close>, whatever
  the list of mounted filesystems is. It calls nothing, so it does not wait, suspend itself
  or start a thread or a process, which are calls in C.
\<close>

theorem sync_terminates_in_one_step:
  "(\<exists>r. sync libc s = Some r)
   \<and> sync (\<lambda>f s'. None) s = Some (s, 1)
   \<and> map_option snd (sync libc s) = Some 1
   \<and> map_option snd (sync libc (s\<lparr>mounts := ms\<rparr>)) = Some 1
   \<and> footprint (activation nosync_c ''sync'') = []"
  by (simp add: sync_returns footprint_sync)

lemma constructors_nosync_c: "constructors nosync_c = []"
  by (simp add: constructors_def functions_nosync_c)

lemma destructors_nosync_c: "destructors nosync_c = []"
  by (simp add: destructors_def functions_nosync_c)

lemma invoke_sync: "invoke nosync_c libc ''sync'' = sync libc"
  by (simp add: sync_def)

lemma load_nosync_c: "load nosync_c ini libc s = map_option fst (ini s)"
  by (simp add: load_def constructors_nosync_c variables_nosync_c split: option.splits)

lemma unload_nosync_c: "unload nosync_c fin libc s = map_option fst (fin s)"
  by (simp add: unload_def destructors_nosync_c)

lemma lifecycle_nosync_c:
  "lifecycle nosync_c ini fin libc ''sync'' n s =
     (case ini s of
        None \<Rightarrow> None
      | Some (s1, k) \<Rightarrow> map_option fst (fin s1))"
  by (simp add: lifecycle_def load_nosync_c unload_nosync_c invoke_sync invoke_n_sync
      split: option.splits)

lemma lifecycle_empty_unit:
  "lifecycle [] ini fin libc f 0 s =
     (case ini s of
        None \<Rightarrow> None
      | Some (s1, k) \<Rightarrow> map_option fst (fin s1))"
  by (simp add: lifecycle_def load_def unload_def constructors_def destructors_def
      split: option.splits)

text \<open>
  The termination code of the toolchain is covered by the parameter: one that calls a
  finaliser of the standard library and sets a guard variable of its own does so when the
  object of this unit is unloaded.
\<close>

lemma unload_runs_termination_code:
  "map_option (\<lambda>t. vars t ''completed.0'')
     (unload nosync_c
        (exec (\<lambda>f s. Some (s, 1)) [Call ''__cxa_finalize'', Store ''completed.0'' 1]) libc
        \<lparr>errno = 0, vars = (\<lambda>x. 0), mounts = []\<rparr>) = Some 1"
  by (simp add: unload_nosync_c)

text \<open>
  C7. The unit owns no state. It declares no file-scope variable, static or not; the body of
  its only function is the statement \<open>return;\<close>, which declares nothing, stores to no
  variable and calls nothing, so it acquires no resource; it has no constructor and no
  destructor; any number \<open>n\<close> of invocations leaves the state as it was. Over the lifecycle
  of the object the unit contributes nothing: loading it does what the toolchain's start-up
  code \<open>ini\<close> does and no more, unloading it does what the toolchain's termination code
  \<open>fin\<close> does and no more, and loading it, calling \<open>sync\<close> \<open>n\<close> times and unloading it ends
  where the object of the empty unit ends that is loaded and unloaded without a call.
\<close>

theorem nosync_owns_no_state:
  "variables_of nosync_c = []
   \<and> map body (functions_of nosync_c) = [[Return]]
   \<and> footprint (activation nosync_c ''sync'') = []
   \<and> constructors nosync_c = []
   \<and> destructors nosync_c = []
   \<and> invoke_n n (sync libc) s = Some s
   \<and> load nosync_c ini libc s = map_option fst (ini s)
   \<and> unload nosync_c fin libc s = map_option fst (fin s)
   \<and> lifecycle nosync_c ini fin libc ''sync'' n s =
       (case ini s of
          None \<Rightarrow> None
        | Some (s1, k) \<Rightarrow> map_option fst (fin s1))
   \<and> lifecycle nosync_c ini fin libc ''sync'' n s = lifecycle [] ini fin libc ''sync'' 0 s"
  by (simp add: variables_nosync_c functions_nosync_c footprint_sync constructors_nosync_c
      destructors_nosync_c invoke_n_sync load_nosync_c unload_nosync_c lifecycle_nosync_c
      lifecycle_empty_unit)

section \<open>Independence of state and environment\<close>

text \<open>
  C8. The override is deterministic and independent of its input. It is the same state
  transformer over any two standard libraries (the environment has no influence); any two
  invocations, in any two states, both return, after the same number of steps, each in the
  state it started in; and whatever an observer \<open>obs\<close> sees of the state, two invocations
  started in states that look alike end in states that look alike.
\<close>

theorem sync_input_independent:
  "sync libc1 = sync libc2
   \<and> map_option snd (sync libc1 s1) = map_option snd (sync libc2 s2)
   \<and> map_option fst (sync libc1 s1) = Some s1
   \<and> map_option fst (sync libc2 s2) = Some s2
   \<and> (obs s1 = obs s2 \<longrightarrow>
        map_option (obs \<circ> fst) (sync libc1 s1) = map_option (obs \<circ> fst) (sync libc2 s2))"
proof -
  have "sync libc1 = sync libc2"
    by (rule ext) (simp add: sync_returns)
  then show ?thesis
    by (simp add: sync_returns)
qed

theorem sync_input_independent_witness:
  "errno \<lparr>errno = 0, vars = (\<lambda>x. 0), mounts = []\<rparr>
     = errno \<lparr>errno = 0, vars = (\<lambda>x. 1), mounts = [\<lparr>dirty = [4, 2], stable = []\<rparr>]\<rparr>
   \<and> map_option (errno \<circ> fst)
        (sync (\<lambda>f s. None) \<lparr>errno = 0, vars = (\<lambda>x. 0), mounts = []\<rparr>)
     = map_option (errno \<circ> fst)
        (sync (\<lambda>f s. Some (s\<lparr>errno := 5\<rparr>, 7))
           \<lparr>errno = 0, vars = (\<lambda>x. 1), mounts = [\<lparr>dirty = [4, 2], stable = []\<rparr>]\<rparr>)"
proof -
  let ?s1 = "\<lparr>errno = 0, vars = (\<lambda>x. 0), mounts = []\<rparr>"
  let ?s2 = "\<lparr>errno = 0, vars = (\<lambda>x. 1), mounts = [\<lparr>dirty = [4, 2], stable = []\<rparr>]\<rparr>"
  have h: "errno ?s1 = errno ?s2"
    by simp
  have "errno ?s1 = errno ?s2 \<longrightarrow>
        map_option (errno \<circ> fst) (sync (\<lambda>f s. None) ?s1)
          = map_option (errno \<circ> fst) (sync (\<lambda>f s. Some (s\<lparr>errno := 5\<rparr>, 7)) ?s2)"
    using sync_input_independent
      [of "\<lambda>f s. None" "\<lambda>f s. Some (s\<lparr>errno := 5\<rparr>, 7)" ?s1 ?s2 errno]
    by blast
  with h show ?thesis
    by blast
qed

section \<open>Concurrent callers\<close>

lemma interleave_returning:
  "set ts \<subseteq> {[Return], []} \<Longrightarrow> map_option snd (interleave ext sched ts s) = Some s"
proof (induction sched arbitrary: ts)
  case Nil
  show ?case by simp
next
  case (Cons i sched)
  show ?case
  proof (cases "i < length ts")
    case False
    then show ?thesis using Cons.IH [OF Cons.prems] by simp
  next
    case True
    then have "ts ! i \<in> set ts" by simp
    with Cons.prems have "ts ! i = [Return] \<or> ts ! i = []" by auto
    then have st: "step ext (ts ! i) s = Some ([], s)" by auto
    have "set (ts[i := []]) \<subseteq> insert [] (set ts)"
      by (rule set_update_subset_insert)
    with Cons.prems have "set (ts[i := []]) \<subseteq> {[Return], []}" by auto
    then have "map_option snd (interleave ext sched (ts[i := []]) s) = Some s"
      by (rule Cons.IH)
    with True st show ?thesis by simp
  qed
qed

lemma may_race_sync_left: "\<not> may_race (activation nosync_c ''sync'') c"
  by (simp add: may_race_def footprint_sync)

lemma may_race_sync_right: "\<not> may_race c (activation nosync_c ''sync'')"
  by (simp add: may_race_def footprint_sync list_ex_iff)

text \<open>
  C9. Any number \<open>n\<close> of threads may be inside the override at once. Under every schedule of
  their steps no thread is ever stuck (no step waits for a lock or for another thread) and
  the shared state stays the one they started with. The body touches nothing shared: its
  footprint is empty, so it may race neither with another invocation of itself nor with
  any other code \<open>c\<close> a thread of the process runs.
\<close>

theorem sync_concurrent_callers:
  "map_option snd (interleave libc sched (replicate n (activation nosync_c ''sync'')) s) = Some s
   \<and> footprint (activation nosync_c ''sync'') = []
   \<and> \<not> may_race (activation nosync_c ''sync'') (activation nosync_c ''sync'')
   \<and> \<not> may_race (activation nosync_c ''sync'') c
   \<and> \<not> may_race c (activation nosync_c ''sync'')"
proof -
  have "set (replicate n (activation nosync_c ''sync'')) \<subseteq> {[Return], []}"
    by (auto simp: activation_sync)
  then have "map_option snd (interleave libc sched (replicate n (activation nosync_c ''sync'')) s)
      = Some s"
    by (rule interleave_returning)
  then show ?thesis
    using may_race_sync_left may_race_sync_right footprint_sync by blast
qed

section \<open>The error number\<close>

text \<open>
  How the model tells the override from a wrapper that forwards to a system call: over a
  standard library whose call fails with the error number 5 and flushes nothing, the
  forwarding body changes \<open>errno\<close>.
\<close>

lemma forwarding_wrapper_sets_errno:
  "map_option (errno \<circ> fst)
     (exec (\<lambda>f s. Some (s\<lparr>errno := 5\<rparr>, 1)) [Call ''syscall'', Return]
        \<lparr>errno = 0, vars = (\<lambda>x. 0), mounts = []\<rparr>) = Some 5"
  by simp

text \<open>
  C10. Every invocation of the override leaves \<open>errno\<close> as it was, in every state and over
  every standard library, also one whose every function sets \<open>errno\<close>: the body executes
  the one statement \<open>return;\<close>, which neither calls a function nor stores to a variable.
\<close>

theorem sync_preserves_errno:
  "map_option (errno \<circ> fst) (sync libc s) = Some (errno s)
   \<and> map_option (errno \<circ> fst) (sync (\<lambda>f s'. Some (s'\<lparr>errno := e\<rparr>, 1)) s) = Some (errno s)
   \<and> footprint (activation nosync_c ''sync'') = []"
  by (simp add: sync_returns footprint_sync)

end
